theory Spec2Isabelle
  imports Main
begin

section \<open>Values, errors and observable events\<close>

text \<open>
  The embedded program is \<^verbatim>\<open>src/lib/topologies/server.js\<close>: the \<^verbatim>\<open>Callbacks\<close> registry
  (an \<^verbatim>\<open>EventEmitter\<close> with a \<^verbatim>\<open>flush\<close> method) and the \<^verbatim>\<open>Server\<close> constructor with
  the closures it creates. JavaScript values are modelled only as far as the code inspects
  them: a value is a number, a string, a boolean or null; a document is a list of fields.
\<close>

datatype jsval = JNum int | JStr string | JBool bool | JNull

type_synonym document = "(string \<times> jsval) list"

text \<open>JavaScript truthiness, as used by \<^verbatim>\<open>a || b\<close> and \<^verbatim>\<open>if(a)\<close>.\<close>

fun truthy :: "jsval \<Rightarrow> bool" where
  "truthy (JNum n) = (n \<noteq> 0)"
| "truthy (JStr s) = (s \<noteq> [])"
| "truthy (JBool b) = b"
| "truthy JNull = False"

text \<open>\<^verbatim>\<open>v || d\<close> for a property that may be absent (\<open>None\<close> is \<^verbatim>\<open>undefined\<close>).\<close>

definition js_or :: "jsval option \<Rightarrow> jsval \<Rightarrow> jsval" where
  "js_or v d = (case v of None \<Rightarrow> d | Some x \<Rightarrow> if truthy x then x else d)"

text \<open>\<^verbatim>\<open>typeof v != 'number'\<close> for a property that may be absent.\<close>

definition not_number :: "jsval option \<Rightarrow> bool" where
  "not_number v = (case v of Some (JNum n) \<Rightarrow> False | _ \<Rightarrow> True)"

text \<open>Decimal rendering of numbers, as \<^verbatim>\<open>util.format('%s', n)\<close> prints them.\<close>

fun digits :: "nat \<Rightarrow> string" where
  "digits n =
     (if n < 10 then [''0123456789'' ! n]
      else digits (n div 10) @ [''0123456789'' ! (n mod 10)])"

definition show_int :: "int \<Rightarrow> string" where
  "show_int i = (if i < 0 then CHR ''-'' # digits (nat (- i)) else digits (nat i))"

fun to_string :: "jsval \<Rightarrow> string" where
  "to_string (JNum n) = show_int n"
| "to_string (JStr s) = s"
| "to_string (JBool b) = (if b then ''true'' else ''false'')"
| "to_string JNull = ''null''"

text \<open>\<^verbatim>\<open>ns.split(".")\<close>: always at least one piece.\<close>

fun split_on :: "char \<Rightarrow> string \<Rightarrow> string list" where
  "split_on c [] = [[]]"
| "split_on c (x # xs) =
     (if x = c then [] # split_on c xs
      else (case split_on c xs of [] \<Rightarrow> [[x]] | w # ws \<Rightarrow> (x # w) # ws))"

text \<open>
  Error values: the \<^verbatim>\<open>MongoError\<close>, \<^verbatim>\<open>Error\<close> and \<^verbatim>\<open>TypeError\<close> objects the code creates or
  the runtime raises, the opaque cause a pool signal carries (kept as its
  \<^verbatim>\<open>JSON.stringify\<close> rendering), and a plain string (the terminal reconnect failure is
  emitted as a formatted string).
\<close>

datatype errval =
    MongoError string
  | JsError string
  | TypeError string
  | Cause string
  | Text string

section \<open>The data model\<close>

subsection \<open>Plugins, commands and wire frames\<close>

text \<open>
  A read-preference strategy is an object whose methods are all optional: it is modelled by
  the list of hooks it defines. The strategies object maps names to strategies; \<open>None\<close> is
  \<^verbatim>\<open>null\<close>/\<^verbatim>\<open>undefined\<close> (no strategies object), which the code tests with
  \<^verbatim>\<open>readPreferenceStrategies != null\<close>. An authentication provider is opaque: only the
  names (the keys of \<^verbatim>\<open>authProviders\<close>) matter to the code.
\<close>

datatype hook = OnConnect | OnError | OnTimeout | OnClose | OnStartOperation | OnEndOperation

type_synonym strategy = "hook list"

datatype connection = PoolConnection | Supplied nat

text \<open>
  The \<^verbatim>\<open>options.readPreference\<close> of a command: an instance of \<^verbatim>\<open>ReadPreference\<close> (with the
  answer of its \<^verbatim>\<open>slaveOk()\<close>), or some other truthy value.
\<close>

datatype read_preference = ReadPreference bool | Plain jsval

record command_options =
  readPreference :: "read_preference option"
  connection :: "connection option"

record write_options =
  ordered :: "jsval option"
  writeConcern :: "document option"

text \<open>The write command assembled by \<^verbatim>\<open>executeWrite\<close> (lines 326-330).\<close>

record write_command =
  wc_type :: string
  wc_target :: "string option"
  wc_opsField :: string
  wc_ops :: "document list"
  wc_ordered :: jsval
  wc_writeConcern :: document

datatype cmd = IsMasterCmd | WriteCmd write_command | Cmd document

text \<open>
  Modelled from the spec: the \<^verbatim>\<open>Query\<close> frame of \<^verbatim>\<open>../connection/commands\<close>, which is not
  under src/. The spec (section 6) gives it a \<^verbatim>\<open>requestId\<close> and a settable secondary-ok
  flag; the identifier is unique per frame, here the value of a counter.
\<close>

record query =
  requestId :: nat
  q_ns :: string
  q_cmd :: cmd
  slaveOk :: bool

record response =
  responseTo :: nat
  documents :: "document list"

text \<open>
  \<^verbatim>\<open>new CommandResult(result.documents[0], connection)\<close>: the first document of the
  response (\<open>None\<close> when there is none: \<^verbatim>\<open>undefined\<close>) and the connection used.
\<close>

datatype command_result = CommandResult "document option" connection

text \<open>
  The continuation handed to \<^verbatim>\<open>command\<close>: a caller's function (identified by a number) or
  the closure of \<^verbatim>\<open>connectHandler\<close> (lines 237-265) that receives the ismaster reply.
\<close>

datatype callback = User nat | IsMaster

text \<open>
  The third argument of \<^verbatim>\<open>command\<close> and of the write operations: a function (the
  continuation, given in the place of the options), an options object, or
  \<^verbatim>\<open>undefined\<close>/\<^verbatim>\<open>null\<close>. The continuation itself is always a function.
\<close>

datatype 'a arg = Fn callback | Obj 'a | Undefined

text \<open>
  The listener registered by \<^verbatim>\<open>command\<close> (lines 412-417): a closure over the frame's
  \<^verbatim>\<open>query\<close> (its request identifier), the continuation and the connection.
\<close>

datatype listener = Listener nat callback connection

subsection \<open>The connection pool\<close>

text \<open>
  Modelled from the spec: the \<^verbatim>\<open>Pool\<close> of \<^verbatim>\<open>../connection/pool\<close>, which is not under src/.
  The spec (section 6) gives its interface: \<^verbatim>\<open>connect()\<close>, \<^verbatim>\<open>destroy()\<close>, \<^verbatim>\<open>isConnected()\<close>,
  \<^verbatim>\<open>get()\<close>, \<^verbatim>\<open>write(frame)\<close> and the events \<^verbatim>\<open>connect\<close>, \<^verbatim>\<open>message\<close>, \<^verbatim>\<open>error\<close>, \<^verbatim>\<open>close\<close>,
  \<^verbatim>\<open>timeout\<close>, \<^verbatim>\<open>parseError\<close>. A pool is the flag \<^verbatim>\<open>isConnected()\<close> answers and its
  listeners, in the order they were attached; the flag is set when the pool announces
  \<^verbatim>\<open>connect\<close> and cleared by \<^verbatim>\<open>destroy()\<close>.
\<close>

datatype signal = SError | SClose | STimeout | SParseError | SMessage | SConnect

text \<open>
  The functions the server attaches to a pool: the handlers of lines 177-266, and the two
  closures of \<^verbatim>\<open>reconnectServer\<close> (the local \<^verbatim>\<open>errorHandler\<close> of lines 116-129 and the
  \<^verbatim>\<open>connect\<close> listener of lines 133-162).
\<close>

datatype handler =
    MessageHandler | ErrorHandler | FatalErrorHandler | TimeoutHandler | CloseHandler
  | ConnectHandler | ReconnectErrorHandler | ReconnectConnect

record pool =
  connected :: bool
  listeners :: "(signal \<times> handler \<times> bool) list"

definition new_Pool :: pool where
  "new_Pool = \<lparr>connected = False, listeners = []\<rparr>"

definition pool_on :: "signal \<Rightarrow> handler \<Rightarrow> pool \<Rightarrow> pool" where
  "pool_on e h p = p\<lparr>listeners := listeners p @ [(e, h, False)]\<rparr>"

definition pool_once :: "signal \<Rightarrow> handler \<Rightarrow> pool \<Rightarrow> pool" where
  "pool_once e h p = p\<lparr>listeners := listeners p @ [(e, h, True)]\<rparr>"

definition removeAllListeners :: "signal \<Rightarrow> pool \<Rightarrow> pool" where
  "removeAllListeners e p = p\<lparr>listeners := filter (\<lambda>l. fst l \<noteq> e) (listeners p)\<rparr>"

definition pool_destroy :: "pool \<Rightarrow> pool" where
  "pool_destroy p = p\<lparr>connected := False\<rparr>"

subsection \<open>Options and the server's state\<close>

text \<open>
  The constructor's options, as far as the code reads them (lines 71-85, 100-102). \<open>None\<close>
  is a property that is absent or, for the two flags, not a boolean. The strategies and
  the providers are objects, given by their properties in the order of enumeration.
\<close>

record options =
  host :: string
  port :: nat
  o_reconnect :: "bool option"
  o_reconnectTries :: "int option"
  o_reconnectInterval :: "int option"
  o_emitError :: "bool option"
  o_readPreferenceStrategies :: "(string \<times> strategy) list option"
  o_authProviders :: "string list option"

text \<open>
  The events the server emits (\<^verbatim>\<open>self.emit\<close>), and their names, under which observers
  attach listeners to the server (\<^verbatim>\<open>Server\<close> inherits \<^verbatim>\<open>EventEmitter\<close>, line 532).
\<close>

datatype event =
    EvError errval | EvTimeout errval | EvClose errval | EvConnect | EvReconnect

datatype event_name = ErrorEvent | TimeoutEvent | CloseEvent | ConnectEvent | ReconnectEvent

text \<open>
  The continuation of a countdown (the local \<^verbatim>\<open>count\<close> of lines 151 and 457, the local
  \<^verbatim>\<open>nPreferences\<close> of line 352): what runs when the counter reaches zero.
\<close>

datatype kont = AfterAuthentications | AfterConnectHooks | AfterReauthentications

text \<open>
  The state: the variables of the \<^verbatim>\<open>Server\<close> closure (lines 62-103), the runtime's queues
  (\<^verbatim>\<open>process.nextTick\<close>, \<^verbatim>\<open>setTimeout\<close>), the counters captured by pending plugin
  continuations, the event names observers listen to (one entry per listener attached),
  and what the server has done: events emitted (every call of \<^verbatim>\<open>self.emit\<close>), failures given to
  \<^verbatim>\<open>flush\<close>, registry listeners run
  (\<open>resolved\<close>: the request identifier of the listener and the arguments it got), caller
  continuations invoked, plugin methods called, frames written, pools asked to connect.
\<close>

record server =
  reconnect :: bool
  reconnectTries :: int
  reconnectInterval :: int
  emitError :: bool
  currentReconnectRetry :: int
  ismaster :: "document option"
  readPreferenceStrategies :: "(string \<times> strategy) list option"
  authProviders :: "string list"
  pool :: "pool option"
  s_host :: string
  s_port :: nat
  name :: string
  callbacks :: "(nat \<times> listener) list"
  nextRequestId :: nat
  ticks :: "(nat \<times> errval) list"
  timers :: "int list"
  counters :: "(int \<times> kont) list"
  observed :: "event_name list"
  emitted :: "event list"
  flushes :: "errval list"
  resolved :: "(nat \<times> (errval + response)) list"
  invoked :: "(nat \<times> (errval + command_result)) list"
  hookCalls :: "(string \<times> hook \<times> nat option) list"
  reauthenticateCalls :: "(string \<times> nat) list"
  written :: "(connection \<times> query) list"
  connectCalls :: nat

section \<open>The operations\<close>

text \<open>
  A function of the source becomes a function from the state to the new state; one that can
  throw returns the exception as well (\<open>Some e\<close>: \<open>e\<close> was thrown, and the state is the one
  reached when it was). \<open>andThen\<close> sequences two statements: the second is skipped when the
  first throws.
\<close>

type_synonym result = "errval option \<times> server"

definition andThen :: "result \<Rightarrow> (server \<Rightarrow> result) \<Rightarrow> result" where
  "andThen r f = (case r of (None, s) \<Rightarrow> f s | (Some e, s) \<Rightarrow> (Some e, s))"

subsection \<open>The constructor (lines 59-106)\<close>

definition Server :: "options \<Rightarrow> server" where
  "Server options =
     (let tries = (case o_reconnectTries options of
                     None \<Rightarrow> 30 | Some n \<Rightarrow> if n \<noteq> 0 then n else 30)
      in \<lparr> reconnect = (case o_reconnect options of Some b \<Rightarrow> b | None \<Rightarrow> True),
           reconnectTries = tries,
           reconnectInterval = (case o_reconnectInterval options of
                                  None \<Rightarrow> 1000 | Some n \<Rightarrow> if n \<noteq> 0 then n else 1000),
           emitError = (case o_emitError options of Some b \<Rightarrow> b | None \<Rightarrow> False),
           currentReconnectRetry = tries,
           ismaster = None,
           readPreferenceStrategies = o_readPreferenceStrategies options,
           authProviders = (case o_authProviders options of Some a \<Rightarrow> a | None \<Rightarrow> []),
           pool = None,
           s_host = host options,
           s_port = port options,
           name = host options @ '':'' @ digits (port options),
           callbacks = [],
           nextRequestId = 0,
           ticks = [],
           timers = [],
           counters = [],
           observed = [],
           emitted = [],
           flushes = [],
           resolved = [],
           invoked = [],
           hookCalls = [],
           reauthenticateCalls = [],
           written = [],
           connectCalls = 0 \<rparr>)"

text \<open>
  \<^verbatim>\<open>server.on(name, listener)\<close>, inherited from \<^verbatim>\<open>EventEmitter\<close>: an observer attaches a
  listener to an event of the server.
\<close>

definition server_on :: "event_name \<Rightarrow> server \<Rightarrow> server" where
  "server_on n s = s\<lparr>observed := observed s @ [n]\<rparr>"

text \<open>
  \<^verbatim>\<open>self.emit(event, ...)\<close>, inherited from \<^verbatim>\<open>EventEmitter\<close>. The call is recorded in
  \<open>emitted\<close>. An \<^verbatim>\<open>error\<close> event that has no listener is not delivered: \<^verbatim>\<open>emit\<close> throws
  instead, the value emitted when it is an \<^verbatim>\<open>Error\<close> object (a \<^verbatim>\<open>MongoError\<close>; the cause of a
  pool signal is taken to be one), and a \<^verbatim>\<open>TypeError\<close> in its place otherwise (the string of
  line 123). Any other event with no listener is dropped silently. The listeners of
  observers are taken not to throw.
\<close>

definition unhandled :: "errval \<Rightarrow> errval" where
  "unhandled er =
     (case er of Text t \<Rightarrow> TypeError ''Uncaught, unspecified error event'' | _ \<Rightarrow> er)"

definition emit :: "event \<Rightarrow> server \<Rightarrow> result" where
  "emit e s =
     (let s1 = s\<lparr>emitted := emitted s @ [e]\<rparr> in
      case e of
        EvError er \<Rightarrow>
          if ErrorEvent \<in> set (observed s) then (None, s1) else (Some (unhandled er), s1)
      | _ \<Rightarrow> (None, s1))"

subsection \<open>Plugin notification (lines 338-369, 451-468)\<close>

text \<open>
  \<^verbatim>\<open>notifyStrategies(op, params)\<close> with no callback (lines 339-349): every strategy that
  defines the hook is called, in the order of the strategies object; \<^verbatim>\<open>for ... in\<close> over
  \<^verbatim>\<open>null\<close> does nothing.
\<close>

definition hooked :: "hook \<Rightarrow> (string \<times> strategy) list \<Rightarrow> string list" where
  "hooked op m = map fst (filter (\<lambda>e. op \<in> set (snd e)) m)"

definition notifyStrategies :: "hook \<Rightarrow> server \<Rightarrow> server" where
  "notifyStrategies op s =
     (case readPreferenceStrategies s of
        None \<Rightarrow> s
      | Some m \<Rightarrow> s\<lparr>hookCalls := hookCalls s @ map (\<lambda>n. (n, op, None)) (hooked op m)\<rparr>)"

text \<open>
  \<^verbatim>\<open>notifyStrategies(op, params, callback)\<close> (lines 351-368). Its only call is line 261,
  whose callback (lines 261-263) announces readiness. The counter \<^verbatim>\<open>nPreferences\<close> starts at
  the number of strategies; each strategy that defines the hook is called with a
  continuation that decrements the counter and calls the callback at zero. The counter
  lives in \<open>counters\<close>; a call records the counter its continuation is bound to.
\<close>

definition notifyStrategies_cb :: "hook \<Rightarrow> server \<Rightarrow> result" where
  "notifyStrategies_cb op s =
     (case readPreferenceStrategies s of
        None \<Rightarrow> (Some (TypeError ''Object.keys called on non-object''), s)
      | Some m \<Rightarrow>
          if length m = 0 then emit EvConnect s
          else (None, s\<lparr>counters := counters s @ [(int (length m), AfterConnectHooks)],
                        hookCalls := hookCalls s @
                          map (\<lambda>n. (n, op, Some (length (counters s)))) (hooked op m)\<rparr>))"

text \<open>The callback given to \<^verbatim>\<open>applyAuthentications\<close> by \<^verbatim>\<open>connectHandler\<close> (lines 255-264).\<close>

definition authentications_done :: "server \<Rightarrow> result" where
  "authentications_done s =
     (if readPreferenceStrategies s = None then emit EvConnect s
      else notifyStrategies_cb OnConnect s)"

text \<open>
  \<^verbatim>\<open>applyAuthentications(callback)\<close> (lines 451-468); its only call is line 255. Every
  provider's \<^verbatim>\<open>reauthenticate\<close> is called with a continuation that counts down.
\<close>

definition applyAuthentications :: "server \<Rightarrow> result" where
  "applyAuthentications s =
     (let keys = authProviders s in
      if length keys = 0 then authentications_done s
      else (None, s\<lparr>counters := counters s @ [(int (length keys), AfterAuthentications)],
                    reauthenticateCalls := reauthenticateCalls s @
                      map (\<lambda>k. (k, length (counters s))) keys\<rparr>))"

text \<open>
  A plugin calls the continuation it was given (lines 359-364, 460-466, 154-160): the
  counter it is bound to is decremented, and at zero the countdown's continuation runs.
\<close>

definition fire :: "kont \<Rightarrow> server \<Rightarrow> result" where
  "fire k s =
     (case k of
        AfterAuthentications \<Rightarrow> authentications_done s
      | AfterConnectHooks \<Rightarrow> emit EvConnect s
      | AfterReauthentications \<Rightarrow> emit EvReconnect s)"

definition countdown :: "nat \<Rightarrow> server \<Rightarrow> result" where
  "countdown c s =
     (if c < length (counters s) then
        (let n = fst (counters s ! c) - 1;
             k = snd (counters s ! c);
             s' = s\<lparr>counters := (counters s)[c := (n, k)]\<rparr>
         in if n = 0 then fire k s' else (None, s'))
      else (None, s))"

subsection \<open>Continuations (lines 237-265, 412-417)\<close>

text \<open>The closure \<^verbatim>\<open>connectHandler\<close> hands to \<^verbatim>\<open>command\<close> (lines 237-265).\<close>

definition ismaster_callback :: "errval + command_result \<Rightarrow> server \<Rightarrow> result" where
  "ismaster_callback r s =
     (case r of
        Inl err \<Rightarrow> emit (EvClose err) s
      | Inr (CommandResult d conn) \<Rightarrow>
          (let s1 = s\<lparr>ismaster := d\<rparr> in
           case d of
             None \<Rightarrow> (Some (TypeError ''Cannot read property minWireVersion of undefined''), s1)
           | Some doc \<Rightarrow>
               if not_number (map_of doc ''minWireVersion'')
               then emit (EvError (MongoError ''non supported server version'')) s1
               else applyAuthentications
                      (case map_of doc ''me'' of
                         None \<Rightarrow> s1
                       | Some v \<Rightarrow> if truthy v then s1\<lparr>name := to_string v\<rparr> else s1)))"

definition call_callback :: "callback \<Rightarrow> errval + command_result \<Rightarrow> server \<Rightarrow> result" where
  "call_callback cb r s =
     (case cb of
        User k \<Rightarrow> (None, s\<lparr>invoked := invoked s @ [(k, r)]\<rparr>)
      | IsMaster \<Rightarrow> ismaster_callback r s)"

text \<open>The listener \<^verbatim>\<open>command\<close> registers (lines 412-417), called with \<^verbatim>\<open>(err, result)\<close>.\<close>

definition listener_body :: "listener \<Rightarrow> errval + response \<Rightarrow> server \<Rightarrow> result" where
  "listener_body l a s =
     (case l of Listener i cb conn \<Rightarrow>
        (let s1 = notifyStrategies OnEndOperation (s\<lparr>resolved := resolved s @ [(i, a)]\<rparr>) in
         case a of
           Inl err \<Rightarrow> call_callback cb (Inl err) s1
         | Inr result \<Rightarrow>
             call_callback cb
               (Inr (CommandResult (case documents result of [] \<Rightarrow> None | d # _ \<Rightarrow> Some d) conn))
               s1))"

subsection \<open>The callback registry (lines 20-42)\<close>

text \<open>
  \<^verbatim>\<open>Callbacks\<close> inherits Node's \<^verbatim>\<open>EventEmitter\<close>: \<^verbatim>\<open>_events\<close> holds, per event name (here
  the request identifier), the listeners in registration order. \<^verbatim>\<open>once\<close> appends a
  listener that removes itself when it is first called; it checks nothing about the
  listeners already there. \<^verbatim>\<open>emit\<close> calls a snapshot of the event's listeners in order,
  and an exception from one of them ends the emission.
\<close>

definition once :: "nat \<Rightarrow> listener \<Rightarrow> server \<Rightarrow> result" where
  "once i l s = (None, s\<lparr>callbacks := callbacks s @ [(i, l)]\<rparr>)"

fun run_listeners :: "nat \<Rightarrow> listener list \<Rightarrow> errval + response \<Rightarrow> server \<Rightarrow> result" where
  "run_listeners i [] a s = (None, s)"
| "run_listeners i (l # ls) a s =
     andThen (listener_body l a (s\<lparr>callbacks := remove1 (i, l) (callbacks s)\<rparr>))
       (run_listeners i ls a)"

definition callbacks_emit :: "nat \<Rightarrow> errval + response \<Rightarrow> server \<Rightarrow> result" where
  "callbacks_emit i a s =
     run_listeners i (map snd (filter (\<lambda>e. fst e = i) (callbacks s))) a s"

text \<open>
  \<^verbatim>\<open>flush(err)\<close> (lines 28-39): for every event name of \<^verbatim>\<open>_events\<close> (integer-like keys
  are enumerated in ascending order) the emission of \<^verbatim>\<open>(err, null)\<close> is deferred with
  \<^verbatim>\<open>process.nextTick\<close>. Nothing is removed from the registry by the flush itself.
\<close>

definition flush :: "errval \<Rightarrow> server \<Rightarrow> server" where
  "flush err s =
     s\<lparr>ticks := ticks s @ map (\<lambda>i. (i, err)) (sort (remdups (map fst (callbacks s)))),
       flushes := flushes s @ [err]\<rparr>"

subsection \<open>Commands and writes (lines 305-334, 372-436)\<close>

definition isConnected :: "server \<Rightarrow> bool" where
  "isConnected s = (case pool s of Some p \<Rightarrow> connected p | None \<Rightarrow> False)"

definition command ::
  "string \<Rightarrow> cmd \<Rightarrow> command_options arg \<Rightarrow> callback \<Rightarrow> server \<Rightarrow> result" where
  "command ns c options0 callback0 s =
     (let callback = (case options0 of Fn f \<Rightarrow> f | _ \<Rightarrow> callback0);
          options = (case options0 of
                       Obj ob \<Rightarrow> ob | _ \<Rightarrow> \<lparr>readPreference = None, connection = None\<rparr>)
      in if (case readPreference options of Some (Plain v) \<Rightarrow> truthy v | _ \<Rightarrow> False)
         then (Some (JsError ''readPreference must be an instance of ReadPreference''), s)
         else
           case pool s of
             None \<Rightarrow> (Some (TypeError ''Cannot call method isConnected of null''), s)
           | Some p \<Rightarrow>
               if \<not> connected p
               then call_callback callback
                      (Inl (MongoError (''no connection available to server '' @ name s))) s
               else
                 (let conn = (case connection options of Some c \<Rightarrow> c | None \<Rightarrow> PoolConnection);
                      q = \<lparr>requestId = nextRequestId s, q_ns = ns, q_cmd = c,
                           slaveOk = (case readPreference options of
                                        Some (ReadPreference b) \<Rightarrow> b | _ \<Rightarrow> False)\<rparr>;
                      s1 = s\<lparr>nextRequestId := nextRequestId s + 1\<rparr>;
                      s2 = (if readPreferenceStrategies s1 \<noteq> None
                            then notifyStrategies OnStartOperation s1 else s1)
                  in andThen (once (requestId q) (Listener (requestId q) callback conn) s2)
                       (\<lambda>s3. (None, s3\<lparr>written := written s3 @ [(conn, q)]\<rparr>))))"

definition executeWrite ::
  "string \<Rightarrow> string \<Rightarrow> string \<Rightarrow> document list \<Rightarrow> write_options arg \<Rightarrow> callback \<Rightarrow> server
     \<Rightarrow> result" where
  "executeWrite type opsField ns ops options0 callback0 s =
     (if length ops = 0
      then (Some (MongoError ''insert must contain at least one document''), s)
      else
        (let callback = (case options0 of Fn f \<Rightarrow> f | _ \<Rightarrow> callback0) in
         case (case options0 of
                 Fn f \<Rightarrow> Some \<lparr>ordered = None, writeConcern = None\<rparr>
               | Obj ob \<Rightarrow> Some ob
               | Undefined \<Rightarrow> None) of
           None \<Rightarrow> (Some (TypeError ''Cannot read property ordered of undefined''), s)
         | Some options \<Rightarrow>
             (let p = split_on CHR ''.'' ns;
                  writeCommand =
                    \<lparr>wc_type = type,
                     wc_target = (if 1 < length p then Some (p ! 1) else None),
                     wc_opsField = opsField,
                     wc_ops = ops,
                     wc_ordered = js_or (ordered options) (JBool True),
                     wc_writeConcern = (case writeConcern options of Some w \<Rightarrow> w | None \<Rightarrow> [])\<rparr>
              in command (hd p @ ''.$cmd'') (WriteCmd writeCommand)
                   (Obj \<lparr>readPreference = None, connection = None\<rparr>) callback s)))"

definition server_insert ::
  "string \<Rightarrow> document list \<Rightarrow> write_options arg \<Rightarrow> callback \<Rightarrow> server \<Rightarrow> result" where
  "server_insert ns ops options callback s =
     executeWrite ''insert'' ''documents'' ns ops options callback s"

definition server_update ::
  "string \<Rightarrow> document list \<Rightarrow> write_options arg \<Rightarrow> callback \<Rightarrow> server \<Rightarrow> result" where
  "server_update ns ops options callback s =
     executeWrite ''update'' ''updates'' ns ops options callback s"

definition server_remove ::
  "string \<Rightarrow> document list \<Rightarrow> write_options arg \<Rightarrow> callback \<Rightarrow> server \<Rightarrow> result" where
  "server_remove ns ops options callback s =
     executeWrite ''delete'' ''deletes'' ns ops options callback s"

subsection \<open>Lifecycle: connect, destroy, reconnect (lines 110-173, 273-303)\<close>

definition destroy :: "server \<Rightarrow> result" where
  "destroy s =
     (case pool s of
        None \<Rightarrow> (Some (TypeError ''Cannot call method removeAllListeners of null''), s)
      | Some p \<Rightarrow>
          (None, s\<lparr>pool := Some (pool_destroy
                     (foldl (\<lambda>q e. removeAllListeners e q) p
                        [SClose, SMessage, SError, STimeout, SConnect, SParseError]))\<rparr>))"

text \<open>
  \<^verbatim>\<open>connect()\<close> (lines 274-291). The previous pool, if any, is destroyed and dropped; the
  outcome of \<^verbatim>\<open>pool.connect()\<close> arrives later, as a signal of the pool.
\<close>

definition connect :: "server \<Rightarrow> server" where
  "connect s =
     (let s1 = (case pool s of Some p \<Rightarrow> s\<lparr>pool := Some (pool_destroy p)\<rparr> | None \<Rightarrow> s);
          p = pool_on SParseError FatalErrorHandler
               (pool_on SConnect ConnectHandler
                 (pool_on SMessage MessageHandler
                   (pool_on SError ErrorHandler
                     (pool_on SClose CloseHandler
                       (pool_on STimeout TimeoutHandler new_Pool)))))
      in s1\<lparr>pool := Some p, connectCalls := connectCalls s1 + 1\<rparr>)"

text \<open>\<^verbatim>\<open>reconnectServer()\<close> (lines 110-173), up to and including \<^verbatim>\<open>pool.connect()\<close>.\<close>

definition reconnectServer :: "server \<Rightarrow> server" where
  "reconnectServer s =
     (let s1 = s\<lparr>currentReconnectRetry := reconnectTries s\<rparr>;
          p = pool_once SParseError ReconnectErrorHandler
               (pool_once STimeout ReconnectErrorHandler
                 (pool_once SClose ReconnectErrorHandler
                   (pool_once SError ReconnectErrorHandler
                     (pool_once SConnect ReconnectConnect new_Pool))))
      in s1\<lparr>pool := Some p, connectCalls := connectCalls s1 + 1\<rparr>)"

text \<open>\<^verbatim>\<open>setTimeout(function() { reconnectServer() }, reconnectInterval)\<close>.\<close>

definition schedule_reconnect :: "server \<Rightarrow> server" where
  "schedule_reconnect s = s\<lparr>timers := timers s @ [reconnectInterval s]\<rparr>"

text \<open>The local \<^verbatim>\<open>errorHandler\<close> of \<^verbatim>\<open>reconnectServer\<close> (lines 116-129).\<close>

definition reconnect_errorHandler :: "server \<Rightarrow> result" where
  "reconnect_errorHandler s =
     (case pool s of
        None \<Rightarrow> (Some (TypeError ''Cannot call method destroy of null''), s)
      | Some p \<Rightarrow>
          (let s1 = s\<lparr>pool := Some (pool_destroy p),
                      currentReconnectRetry := currentReconnectRetry s - 1\<rparr>
           in if currentReconnectRetry s1 \<le> 0
              then emit (EvError (Text (''failed to connect to '' @ s_host s1 @ '':'' @
                            digits (s_port s1) @ '' after '' @ show_int (reconnectTries s1) @
                            '' retries''))) s1
              else (None, schedule_reconnect s1)))"

text \<open>
  The \<^verbatim>\<open>connect\<close> listener of \<^verbatim>\<open>reconnectServer\<close> (lines 133-162). Inside
  \<^verbatim>\<open>reconnectServer\<close> the name \<^verbatim>\<open>errorHandler\<close> is the local function of line 116, so that is
  what line 140 attaches to \<^verbatim>\<open>error\<close>.
\<close>

definition reconnect_connect :: "server \<Rightarrow> result" where
  "reconnect_connect s =
     (case pool s of
        None \<Rightarrow> (Some (TypeError ''Cannot call method removeAllListeners of null''), s)
      | Some p \<Rightarrow>
          (let p1 = foldl (\<lambda>q e. removeAllListeners e q) p
                      [SError, SClose, STimeout, SParseError];
               p2 = pool_on SParseError FatalErrorHandler
                     (pool_on SMessage MessageHandler
                       (pool_on STimeout TimeoutHandler
                         (pool_on SClose CloseHandler
                           (pool_on SError ReconnectErrorHandler p1))));
               s1 = s\<lparr>pool := Some p2\<rparr>;
               keys = authProviders s1
           in if length keys = 0 then emit EvReconnect s1
              else (None, s1\<lparr>counters := counters s1 @
                                 [(int (length keys), AfterReauthentications)],
                               reauthenticateCalls := reauthenticateCalls s1 @
                                 map (\<lambda>k. (k, length (counters s1))) keys\<rparr>)))"

subsection \<open>The handlers of pool signals (lines 177-266)\<close>

definition messageHandler :: "response \<Rightarrow> server \<Rightarrow> result" where
  "messageHandler r s = callbacks_emit (responseTo r) (Inr r) s"

definition errorHandler :: "string \<Rightarrow> server \<Rightarrow> result" where
  "errorHandler err s =
     (let s1 = (if readPreferenceStrategies s \<noteq> None then notifyStrategies OnError s else s)
      in andThen (destroy s1)
           (\<lambda>s2.
              let s3 = flush (MongoError (''server '' @ name s2 @ '' received an error '' @ err)) s2
              in andThen (if emitError s3 then emit (EvError (Cause err)) s3 else (None, s3))
                   (\<lambda>s4. (None, if reconnect s4 then schedule_reconnect s4 else s4))))"

definition fatalErrorHandler :: "string \<Rightarrow> server \<Rightarrow> result" where
  "fatalErrorHandler err s =
     (let s1 = (if readPreferenceStrategies s \<noteq> None then notifyStrategies OnError s else s)
      in andThen (destroy s1)
           (\<lambda>s2.
              let s3 = flush (MongoError (''server '' @ name s2 @ '' received an error '' @ err)) s2
              in andThen (emit (EvError (Cause err)) s3)
                   (\<lambda>s4. (None, if reconnect s4 then schedule_reconnect s4 else s4))))"

definition timeoutHandler :: "string \<Rightarrow> server \<Rightarrow> result" where
  "timeoutHandler err s =
     (let s1 = (if readPreferenceStrategies s \<noteq> None then notifyStrategies OnTimeout s else s)
      in andThen (destroy s1)
           (\<lambda>s2.
              let s3 = flush (MongoError (''server '' @ name s2 @ '' timed out'')) s2
              in andThen (emit (EvTimeout (Cause err)) s3)
                   (\<lambda>s4. (None, if reconnect s4 then schedule_reconnect s4 else s4))))"

definition closeHandler :: "string \<Rightarrow> server \<Rightarrow> result" where
  "closeHandler err s =
     (let s1 = (if readPreferenceStrategies s \<noteq> None then notifyStrategies OnClose s else s)
      in andThen (destroy s1)
           (\<lambda>s2.
              let s3 = flush (MongoError (''server '' @ name s2 @ '' sockets closed'')) s2
              in andThen (emit (EvClose (Cause err)) s3)
                   (\<lambda>s4. (None, if reconnect s4 then schedule_reconnect s4 else s4))))"

definition connectHandler :: "server \<Rightarrow> result" where
  "connectHandler s = command ''system.$cmd'' IsMasterCmd (Fn IsMaster) IsMaster s"

subsection \<open>Signals of the pool, and the runtime\<close>

text \<open>
  Modelled from the spec: what the pool announces (section 6). A terminal signal carries a
  cause, kept as its \<^verbatim>\<open>JSON.stringify\<close> rendering; a message carries the response. The
  pool is an \<^verbatim>\<open>EventEmitter\<close>: it calls a snapshot of the listeners of the event in the order
  they were attached, a \<^verbatim>\<open>once\<close> listener being removed just before it is called.
\<close>

datatype occurrence =
    Message response | Failed string | Closed string | TimedOut string | ParseFailed string
  | Connected

fun kind :: "occurrence \<Rightarrow> signal" where
  "kind (Message r) = SMessage"
| "kind (Failed e) = SError"
| "kind (Closed e) = SClose"
| "kind (TimedOut e) = STimeout"
| "kind (ParseFailed e) = SParseError"
| "kind Connected = SConnect"

fun cause :: "occurrence \<Rightarrow> string" where
  "cause (Failed e) = e"
| "cause (Closed e) = e"
| "cause (TimedOut e) = e"
| "cause (ParseFailed e) = e"
| "cause (Message r) = ''undefined''"
| "cause Connected = ''undefined''"

fun handle :: "handler \<Rightarrow> occurrence \<Rightarrow> server \<Rightarrow> result" where
  "handle MessageHandler occ s =
     (case occ of
        Message r \<Rightarrow> messageHandler r s
      | _ \<Rightarrow> (Some (TypeError ''Cannot read property responseTo of undefined''), s))"
| "handle ErrorHandler occ s = errorHandler (cause occ) s"
| "handle FatalErrorHandler occ s = fatalErrorHandler (cause occ) s"
| "handle TimeoutHandler occ s = timeoutHandler (cause occ) s"
| "handle CloseHandler occ s = closeHandler (cause occ) s"
| "handle ConnectHandler occ s = connectHandler s"
| "handle ReconnectErrorHandler occ s = reconnect_errorHandler s"
| "handle ReconnectConnect occ s = reconnect_connect s"

fun run_handlers :: "(signal \<times> handler \<times> bool) list \<Rightarrow> occurrence \<Rightarrow> server \<Rightarrow> result" where
  "run_handlers [] occ s = (None, s)"
| "run_handlers (l # ls) occ s =
     andThen
       (handle (fst (snd l)) occ
          (if snd (snd l)
           then s\<lparr>pool := map_option (\<lambda>p. p\<lparr>listeners := remove1 l (listeners p)\<rparr>) (pool s)\<rparr>
           else s))
       (run_handlers ls occ)"

definition pool_emit :: "occurrence \<Rightarrow> server \<Rightarrow> result" where
  "pool_emit occ s =
     (case pool s of
        None \<Rightarrow> (None, s)
      | Some p \<Rightarrow>
          (let p1 = (if kind occ = SConnect then p\<lparr>connected := True\<rparr> else p)
           in run_handlers (filter (\<lambda>l. fst l = kind occ) (listeners p1)) occ
                (s\<lparr>pool := Some p1\<rparr>)))"

text \<open>The next function deferred with \<^verbatim>\<open>process.nextTick\<close> runs (lines 32-34).\<close>

definition tick :: "server \<Rightarrow> result" where
  "tick s =
     (case ticks s of
        [] \<Rightarrow> (None, s)
      | (i, err) # ts \<Rightarrow> callbacks_emit i (Inl err) (s\<lparr>ticks := ts\<rparr>))"

text \<open>The next timer fires (lines 125-127, 193, 206, 219, 232).\<close>

definition timer :: "server \<Rightarrow> server" where
  "timer s = (case timers s of [] \<Rightarrow> s | t # ts \<Rightarrow> reconnectServer (s\<lparr>timers := ts\<rparr>))"

subsection \<open>Plugin registration (lines 475-482)\<close>

text \<open>
  An object is kept as the list of its properties in the order \<^verbatim>\<open>for ... in\<close> and
  \<^verbatim>\<open>Object.keys\<close> enumerate them: the integer-like names (the canonical decimal of an
  array index) first, in ascending order, then the other names in the order they were
  added. \<^verbatim>\<open>object[name] = value\<close> replaces the value of a name that is there, which keeps
  its place, and puts a new name where the enumeration has it.
\<close>

fun below :: "string \<Rightarrow> string \<Rightarrow> bool" where
  "below [] ys = False"
| "below (x # xs) [] = False"
| "below (x # xs) (y # ys) = (of_char x < (of_char y :: nat) \<or> (x = y \<and> below xs ys))"

definition integer_like :: "string \<Rightarrow> bool" where
  "integer_like k \<longleftrightarrow>
     k \<noteq> [] \<and> list_all (\<lambda>c. c \<in> set ''0123456789'') k \<and>
     (if hd k = CHR ''0'' then k = ''0'' else True) \<and>
     (length k < 10 \<or> (length k = 10 \<and> below k ''4294967295''))"

text \<open>
  \<open>below\<close> compares two decimals of the same length; \<open>precedes k k'\<close> says that the new
  name \<open>k\<close> is enumerated before the name \<open>k'\<close> that is already there.
\<close>

definition precedes :: "string \<Rightarrow> string \<Rightarrow> bool" where
  "precedes k k' =
     (if integer_like k
      then (if integer_like k'
            then length k < length k' \<or> (length k = length k' \<and> below k k')
            else True)
      else False)"

fun place :: "('a \<Rightarrow> string) \<Rightarrow> 'a \<Rightarrow> 'a list \<Rightarrow> 'a list" where
  "place key x [] = [x]"
| "place key x (e # m) = (if precedes (key x) (key e) then x # e # m else e # place key x m)"

definition assign :: "string \<Rightarrow> 'a \<Rightarrow> (string \<times> 'a) list \<Rightarrow> (string \<times> 'a) list" where
  "assign k v m =
     (if k \<in> set (map fst m) then map (\<lambda>e. if fst e = k then (k, v) else e) m
      else place fst (k, v) m)"

definition addReadPreferenceStrategy :: "string \<Rightarrow> strategy \<Rightarrow> server \<Rightarrow> server" where
  "addReadPreferenceStrategy n strategy s =
     s\<lparr>readPreferenceStrategies :=
         Some (assign n strategy (case readPreferenceStrategies s of None \<Rightarrow> [] | Some m \<Rightarrow> m))\<rparr>"

definition addAuthProvider :: "string \<Rightarrow> server \<Rightarrow> server" where
  "addAuthProvider n s =
     s\<lparr>authProviders :=
         (if n \<in> set (authProviders s) then authProviders s
          else place (\<lambda>k. k) n (authProviders s))\<rparr>"

subsection \<open>Runs\<close>

text \<open>
  What can happen to a server: a call of its interface, a signal of its pool, the next
  deferred function or timer running, or a plugin calling the continuation it was given
  (named by the counter the continuation is bound to). A run applies a list of these in
  order; an exception ends the call or the handler that raised it, and the run goes on
  from the state reached.
\<close>

datatype input =
    CallConnect
  | CallDestroy
  | CallCommand string cmd "command_options arg" callback
  | CallInsert string "document list" "write_options arg" callback
  | CallUpdate string "document list" "write_options arg" callback
  | CallRemove string "document list" "write_options arg" callback
  | CallAddReadPreferenceStrategy string strategy
  | CallAddAuthProvider string
  | CallOn event_name
  | PoolSignal occurrence
  | NextTick
  | TimerFires
  | PluginCallsBack nat



text \<open>Every function deferred so far runs: one \<open>tick\<close> per entry of the queue.\<close>

definition drain :: "server \<Rightarrow> server" where
  "drain s = ((\<lambda>s. snd (tick s)) ^^ length (ticks s)) s"

section \<open>Example configurations and scenarios\<close>

text \<open>The options \<^verbatim>\<open>{host: 'localhost', port: 27017}\<close>: every other setting takes its default.\<close>

definition example_options :: options where
  "example_options =
     \<lparr>host = ''localhost'', port = 27017, o_reconnect = None, o_reconnectTries = None,
      o_reconnectInterval = None, o_emitError = None, o_readPreferenceStrategies = None,
      o_authProviders = None\<rparr>"

text \<open>A server after \<^verbatim>\<open>connect()\<close> whose pool has announced \<^verbatim>\<open>connect\<close>.\<close>

definition connected_server :: server where
  "connected_server = snd (pool_emit Connected (connect (Server example_options)))"

text \<open>
  The connection is then lost (\<^verbatim>\<open>close\<close>), the deferred flush runs, the reconnect timer fires
  and the new pool announces \<^verbatim>\<open>connect\<close>: the server has reconnected.
\<close>

definition reconnected_server :: server where
  "reconnected_server =
     snd (pool_emit Connected
            (timer (snd (tick (snd (pool_emit (Closed ''{}'') connected_server))))))"

text \<open>A command is sent on the reconnected server and its reply is outstanding.\<close>

definition reconnected_pending :: server where
  "reconnected_pending =
     snd (command ''db.$cmd'' (Cmd [(''ping'', JNum 1)]) Undefined (User 1) reconnected_server)"

text \<open>One failed reconnect attempt: the timer fires and the new pool announces \<^verbatim>\<open>error\<close>.\<close>

definition failed_attempt :: "server \<Rightarrow> server" where
  "failed_attempt s = snd (pool_emit (Failed ''{}'') (timer s))"

text \<open>
  Two strategies are registered, of which only \<open>a\<close> defines the \<^verbatim>\<open>connect\<close> hook.
\<close>

definition two_strategies_options :: options where
  "two_strategies_options =
     example_options\<lparr>o_readPreferenceStrategies :=
       Some [(''a'', [OnConnect]), (''b'', [OnStartOperation])]\<rparr>"

text \<open>
  The same server with an observer of its \<^verbatim>\<open>error\<close> event, attached before \<^verbatim>\<open>connect()\<close>.
\<close>

definition observed_server :: server where
  "observed_server =
     snd (pool_emit Connected (connect (server_on ErrorEvent (Server example_options))))"

text \<open>The connection of the connected server is lost: its pool announces \<^verbatim>\<open>close\<close>.\<close>

definition lost_connection :: server where
  "lost_connection = snd (pool_emit (Closed ''{}'') connected_server)"

text \<open>
  With the two strategies, the pool has announced \<^verbatim>\<open>connect\<close> and the ismaster reply,
  which has a numeric \<^verbatim>\<open>minWireVersion\<close>, has arrived: no authentication provider is
  registered, so the connect hooks have been called.
\<close>

definition negotiating :: server where
  "negotiating =
     snd (pool_emit
            (Message \<lparr>responseTo = 0,
                      documents = [[(''ismaster'', JBool True), (''minWireVersion'', JNum 0)]]\<rparr>)
            (snd (pool_emit Connected (connect (Server two_strategies_options)))))"

text \<open>An ismaster reply with no \<^verbatim>\<open>minWireVersion\<close>.\<close>

definition old_server_reply :: response where
  "old_server_reply =
     \<lparr>responseTo = 0, documents = [[(''ismaster'', JBool True), (''ok'', JNum 1)]]\<rparr>"

text \<open>
  A run: connect, a command that is answered, a command that is not, the connection
  closes, and the two deferred emissions of the flush run.
\<close>

definition example_inputs :: "input list" where
  "example_inputs =
     [CallConnect, PoolSignal Connected,
      CallCommand ''db.$cmd'' (Cmd [(''ping'', JNum 1)]) Undefined (User 1),
      PoolSignal (Message \<lparr>responseTo = 1, documents = [[(''ok'', JNum 1)]]\<rparr>),
      CallCommand ''db.$cmd'' (Cmd [(''ping'', JNum 1)]) Undefined (User 2),
      PoolSignal (Closed ''{}''), NextTick, NextTick]"

section \<open>The invariant of the callback registry\<close>


definition written_ids :: "server \<Rightarrow> nat list" where
  "written_ids s = map (\<lambda>w. requestId (snd w)) (written s)"

definition view ::
  "server \<Rightarrow> (nat \<times> listener) list \<times> (nat \<times> (errval + response)) list \<times> nat \<times>
     (nat \<times> errval) list \<times> errval list \<times> nat list" where
  "view s = (callbacks s, resolved s, nextRequestId s, ticks s, flushes s, written_ids s)"



section \<open>Properties\<close>

lemmas model_defs =
  andThen_def Server_def emit_def hooked_def notifyStrategies_def notifyStrategies_cb_def
  authentications_done_def applyAuthentications_def fire_def countdown_def ismaster_callback_def
  call_callback_def listener_body_def once_def callbacks_emit_def flush_def isConnected_def
  command_def executeWrite_def server_insert_def server_update_def server_remove_def
  destroy_def connect_def reconnectServer_def schedule_reconnect_def reconnect_errorHandler_def
  reconnect_connect_def messageHandler_def errorHandler_def fatalErrorHandler_def
  timeoutHandler_def closeHandler_def connectHandler_def pool_emit_def tick_def timer_def
  new_Pool_def pool_on_def pool_once_def removeAllListeners_def pool_destroy_def
  js_or_def not_number_def show_int_def addReadPreferenceStrategy_def addAuthProvider_def
  drain_def server_on_def unhandled_def

lemmas scenario_defs =
  example_options_def connected_server_def reconnected_server_def reconnected_pending_def
  failed_attempt_def two_strategies_options_def lost_connection_def negotiating_def
  old_server_reply_def example_inputs_def observed_server_def

subsection \<open>Write operations\<close>

text \<open>
  C9. Each of \<^verbatim>\<open>insert\<close>, \<^verbatim>\<open>update\<close> and \<^verbatim>\<open>remove\<close>, given an empty array of operations,
  throws to its caller at once. The state it leaves is the state it found: no frame was
  written, no pool was touched, and nothing was added to the callback registry.
\<close>

theorem C9_empty_write_throws:
  "server_insert ns [] options callback s =
     (Some (MongoError ''insert must contain at least one document''), s) \<and>
   server_update ns [] options callback s =
     (Some (MongoError ''insert must contain at least one document''), s) \<and>
   server_remove ns [] options callback s =
     (Some (MongoError ''insert must contain at least one document''), s)"
  by (simp add: server_insert_def server_update_def server_remove_def executeWrite_def)

text \<open>
  \<^verbatim>\<open>options.ordered || true\<close> is truthy whatever the caller gave, and a caller's \<^verbatim>\<open>false\<close>
  gives the same write as no \<^verbatim>\<open>ordered\<close> at all.
\<close>

lemma js_or_true_truthy: "truthy (js_or v (JBool True))"
  by (simp add: js_or_def split: option.splits)

lemma ordered_false_as_absent:
  "executeWrite type opsField ns ops (Obj \<lparr>ordered = Some (JBool False), writeConcern = w\<rparr>) cb s =
   executeWrite type opsField ns ops (Obj \<lparr>ordered = None, writeConcern = w\<rparr>) cb s"
  by (simp add: executeWrite_def js_or_def)

text \<open>
  C6 (the code departs from the claim). On a connected server,
  \<^verbatim>\<open>insert('db.coll', [{a: 1}], {ordered: false}, cb)\<close> writes a command whose
  \<^verbatim>\<open>ordered\<close> field is \<^verbatim>\<open>true\<close>: the caller's \<^verbatim>\<open>false\<close> is lost. The write concern defaults
  to the empty document.
\<close>

theorem C6_ordered_false_is_written_true:
  "map (\<lambda>w. q_cmd (snd w))
     (written (snd (server_insert ''db.coll'' [[(''a'', JNum 1)]]
                      (Obj \<lparr>ordered = Some (JBool False), writeConcern = None\<rparr>) (User 0)
                      connected_server))) =
   [IsMasterCmd,
    WriteCmd \<lparr>wc_type = ''insert'', wc_target = Some ''coll'', wc_opsField = ''documents'',
              wc_ops = [[(''a'', JNum 1)]], wc_ordered = JBool True, wc_writeConcern = []\<rparr>]"
  by (simp add: scenario_defs model_defs Let_def)

subsection \<open>Commands without a connection\<close>

text \<open>
  With a pool that is not connected, and no invalid read preference, \<^verbatim>\<open>command\<close> calls
  the caller's continuation once with the failure and registers nothing.
\<close>

lemma command_not_connected:
  assumes "pool s = Some p" and "\<not> connected p"
  shows "command ns c Undefined (User k) s =
           (None, s\<lparr>invoked := invoked s @
              [(k, Inl (MongoError (''no connection available to server '' @ name s)))]\<rparr>)"
  using assms by (simp add: command_def call_callback_def)

text \<open>
  C5 (the code departs from the claim). Before the first \<^verbatim>\<open>connect()\<close> there is no pool:
  \<^verbatim>\<open>isConnected()\<close> answers false, but \<^verbatim>\<open>command\<close> calls \<^verbatim>\<open>pool.isConnected()\<close> on
  \<^verbatim>\<open>null\<close> and throws a \<^verbatim>\<open>TypeError\<close> to its caller. The continuation is not called.
\<close>

theorem C5_command_before_connect_throws:
  "\<not> isConnected (Server options) \<and>
   command ns c Undefined callback (Server options) =
     (Some (TypeError ''Cannot call method isConnected of null''), Server options)"
  by (simp add: command_def isConnected_def Server_def Let_def)

subsection \<open>The callback registry: duplicate registration\<close>

text \<open>
  C8 as stated fails: the ismaster request 0 is pending on the connected server, and a
  second registration under 0 raises nothing and is stored beside the first.
\<close>

theorem C8_duplicate_registration_accepted:
  "callbacks connected_server = [(0, Listener 0 IsMaster PoolConnection)] \<and>
   fst (once 0 (Listener 0 (User 2) PoolConnection) connected_server) = None \<and>
   callbacks (snd (once 0 (Listener 0 (User 2) PoolConnection) connected_server)) =
     [(0, Listener 0 IsMaster PoolConnection), (0, Listener 0 (User 2) PoolConnection)]"
  by (simp add: scenario_defs model_defs Let_def)

text \<open>
  C8, amended. Registering a continuation never fails, whether or not the identifier is
  pending: the registrations already there are unchanged, and the new continuation is the
  last of the identifier's listeners.
\<close>

theorem C8_once_appends:
  "fst (once i l s) = None \<and>
   callbacks (snd (once i l s)) = callbacks s @ [(i, l)] \<and>
   map snd (filter (\<lambda>e. fst e = i) (callbacks (snd (once i l s)))) =
     map snd (filter (\<lambda>e. fst e = i) (callbacks s)) @ [l]"
  by (simp add: once_def)

subsection \<open>Failure handlers\<close>

text \<open>
  A signal that has one listener, attached with \<^verbatim>\<open>on\<close>, runs that listener.
\<close>

lemma andThen_done: "andThen r (run_handlers [] occ) = r"
  by (cases r, cases "fst r") (auto simp: andThen_def)

lemma signal_reaches_handler:
  assumes "pool s = Some p"
    and "kind occ \<noteq> SConnect"
    and "filter (\<lambda>l. fst l = kind occ) (listeners p) = [(kind occ, h, False)]"
  shows "pool_emit occ s = handle h occ s"
proof -
  from assms(1) have e: "s\<lparr>pool := Some p\<rparr> = s" by (cases s) auto
  from assms(2,3) show ?thesis
    by (simp add: pool_emit_def assms(1) andThen_done e)
qed

lemma failure_handlers_common:
  assumes "pool s = Some p"
  shows "emitted (snd (fatalErrorHandler err s)) = emitted s @ [EvError (Cause err)]"
    and "emitted (snd (errorHandler err s)) =
           (if emitError s then emitted s @ [EvError (Cause err)] else emitted s)"
    and "fst (fatalErrorHandler err s) =
           (if ErrorEvent \<in> set (observed s) then None else Some (Cause err))"
    and "fst (errorHandler err s) =
           (if emitError s \<and> ErrorEvent \<notin> set (observed s) then Some (Cause err) else None)"
    and "timers (snd (fatalErrorHandler err s)) =
           (if reconnect s \<and> ErrorEvent \<in> set (observed s)
            then timers s @ [reconnectInterval s] else timers s)"
    and "timers (snd (errorHandler err s)) =
           (if reconnect s \<and> (if emitError s then ErrorEvent \<in> set (observed s) else True)
            then timers s @ [reconnectInterval s] else timers s)"
    and "(snd (fatalErrorHandler err s))\<lparr>emitted := [], timers := []\<rparr> =
         (snd (errorHandler err s))\<lparr>emitted := [], timers := []\<rparr>"
  using assms
  by (simp_all add: fatalErrorHandler_def errorHandler_def destroy_def andThen_def
      notifyStrategies_def flush_def emit_def unhandled_def schedule_reconnect_def Let_def
      split: option.splits)

text \<open>
  C10 as stated fails. The connected server has the default options (errors are not
  re-emitted, reconnection is enabled) and nobody listens to its \<^verbatim>\<open>error\<close> event. On the
  \<^verbatim>\<open>error\<close> signal the reconnect is scheduled; on the \<^verbatim>\<open>parseError\<close> signal the emission of
  line 204 throws, and the reconnect of line 206 is not scheduled.
\<close>

theorem C10_unobserved_fatal_skips_reconnect:
  "observed connected_server = [] \<and>
   fst (pool_emit (Failed ''{}'') connected_server) = None \<and>
   timers (snd (pool_emit (Failed ''{}'') connected_server)) = [1000] \<and>
   fst (pool_emit (ParseFailed ''{}'') connected_server) = Some (Cause ''{}'') \<and>
   emitted (snd (pool_emit (ParseFailed ''{}'') connected_server)) = [EvError (Cause ''{}'')] \<and>
   timers (snd (pool_emit (ParseFailed ''{}'') connected_server)) = []"
  by (simp add: scenario_defs model_defs Let_def)

text \<open>
  C10, amended. On a server that has a pool, the fatal handler always emits the \<^verbatim>\<open>error\<close>
  event with the cause and the generic one emits it exactly when \<^verbatim>\<open>emitError\<close> is set. The
  states the two reach are equal in everything but the events emitted and the timers
  (strategy notification, destroyed pool, deferred flush). A handler that emits throws
  the cause, and schedules no reconnect, exactly when the server has no observer of
  \<^verbatim>\<open>error\<close>; otherwise it returns and the reconnect is scheduled when reconnection is
  enabled. So with an observer of \<^verbatim>\<open>error\<close> the two handlers differ in the emission alone.
  Where they are the listeners of \<^verbatim>\<open>parseError\<close> and of \<^verbatim>\<open>error\<close>, as after \<^verbatim>\<open>connect()\<close>, this
  is what the two signals of the pool do.
\<close>

theorem C10_fatal_always_emits:
  assumes "pool s = Some p"
  shows "emitted (snd (fatalErrorHandler err s)) = emitted s @ [EvError (Cause err)] \<and>
         emitted (snd (errorHandler err s)) =
           (if emitError s then emitted s @ [EvError (Cause err)] else emitted s) \<and>
         (snd (fatalErrorHandler err s))\<lparr>emitted := [], timers := []\<rparr> =
           (snd (errorHandler err s))\<lparr>emitted := [], timers := []\<rparr> \<and>
         fst (fatalErrorHandler err s) =
           (if ErrorEvent \<in> set (observed s) then None else Some (Cause err)) \<and>
         fst (errorHandler err s) =
           (if emitError s \<and> ErrorEvent \<notin> set (observed s) then Some (Cause err) else None) \<and>
         timers (snd (fatalErrorHandler err s)) =
           (if reconnect s \<and> ErrorEvent \<in> set (observed s)
            then timers s @ [reconnectInterval s] else timers s) \<and>
         timers (snd (errorHandler err s)) =
           (if reconnect s \<and> (if emitError s then ErrorEvent \<in> set (observed s) else True)
            then timers s @ [reconnectInterval s] else timers s) \<and>
         (ErrorEvent \<in> set (observed s) \<longrightarrow>
            fst (fatalErrorHandler err s) = None \<and>
            fst (errorHandler err s) = None \<and>
            snd (fatalErrorHandler err s) =
              (snd (errorHandler err s))\<lparr>emitted := emitted s @ [EvError (Cause err)]\<rparr>) \<and>
         (filter (\<lambda>l. fst l = SParseError) (listeners p) = [(SParseError, FatalErrorHandler, False)]
            \<longrightarrow> pool_emit (ParseFailed err) s = fatalErrorHandler err s) \<and>
         (filter (\<lambda>l. fst l = SError) (listeners p) = [(SError, ErrorHandler, False)]
            \<longrightarrow> pool_emit (Failed err) s = errorHandler err s)"
proof -
  have a: "ErrorEvent \<in> set (observed s) \<longrightarrow>
            fst (fatalErrorHandler err s) = None \<and>
            fst (errorHandler err s) = None \<and>
            snd (fatalErrorHandler err s) =
              (snd (errorHandler err s))\<lparr>emitted := emitted s @ [EvError (Cause err)]\<rparr>"
    using assms
    by (simp add: fatalErrorHandler_def errorHandler_def destroy_def andThen_def
        notifyStrategies_def flush_def emit_def schedule_reconnect_def Let_def
        split: option.splits)
  have b: "filter (\<lambda>l. fst l = SParseError) (listeners p) = [(SParseError, FatalErrorHandler, False)]
            \<longrightarrow> pool_emit (ParseFailed err) s = fatalErrorHandler err s"
    using signal_reaches_handler [OF assms, of "ParseFailed err" FatalErrorHandler] by simp
  have c: "filter (\<lambda>l. fst l = SError) (listeners p) = [(SError, ErrorHandler, False)]
            \<longrightarrow> pool_emit (Failed err) s = errorHandler err s"
    using signal_reaches_handler [OF assms, of "Failed err" ErrorHandler] by simp
  from failure_handlers_common [OF assms, of err] a b c show ?thesis
    by blast
qed

theorem C10_witness:
  "pool observed_server \<noteq> None \<and>
   \<not> emitError observed_server \<and>
   ErrorEvent \<in> set (observed observed_server) \<and>
   fst (pool_emit (ParseFailed ''{}'') observed_server) = None \<and>
   fst (pool_emit (Failed ''{}'') observed_server) = None \<and>
   emitted (snd (pool_emit (ParseFailed ''{}'') observed_server)) = [EvError (Cause ''{}'')] \<and>
   emitted (snd (pool_emit (Failed ''{}'') observed_server)) = [] \<and>
   timers (snd (pool_emit (ParseFailed ''{}'') observed_server)) = [1000] \<and>
   timers (snd (pool_emit (Failed ''{}'') observed_server)) = [1000]"
proof -
  obtain p where h: "pool observed_server = Some p"
    by (simp add: scenario_defs model_defs Let_def)
  have l: "listeners p =
      [(STimeout, TimeoutHandler, False), (SClose, CloseHandler, False),
       (SError, ErrorHandler, False), (SMessage, MessageHandler, False),
       (SConnect, ConnectHandler, False), (SParseError, FatalErrorHandler, False)]"
    using h by (auto simp add: scenario_defs model_defs Let_def)
  have e: "emitted observed_server = []" "\<not> emitError observed_server"
    "observed observed_server = [ErrorEvent]" "timers observed_server = []"
    "reconnect observed_server" "reconnectInterval observed_server = 1000"
    by (simp_all add: scenario_defs model_defs Let_def)
  from C10_fatal_always_emits [OF h, of "''{}''"] h l e show ?thesis
    by simp
qed

text \<open>
  C3 (the code departs from the claim). After a successful reconnect the listener of the
  pool's \<^verbatim>\<open>error\<close> signal is the local \<^verbatim>\<open>errorHandler\<close> of \<^verbatim>\<open>reconnectServer\<close>. With a
  command outstanding, an \<^verbatim>\<open>error\<close> signal destroys the pool and schedules a reconnect, but
  flushes nothing: no emission is deferred, the continuation stays registered and is not
  called, and no event is emitted. The \<^verbatim>\<open>close\<close> signal in the same state does flush.
\<close>

theorem C3_error_after_reconnect_does_not_flush:
  "listeners (the (pool reconnected_pending)) =
     [(SError, ReconnectErrorHandler, False), (SClose, CloseHandler, False),
      (STimeout, TimeoutHandler, False), (SMessage, MessageHandler, False),
      (SParseError, FatalErrorHandler, False)] \<and>
   callbacks reconnected_pending = [(1, Listener 1 (User 1) PoolConnection)] \<and>
   callbacks (snd (pool_emit (Failed ''{}'') reconnected_pending)) =
     [(1, Listener 1 (User 1) PoolConnection)] \<and>
   ticks (snd (pool_emit (Failed ''{}'') reconnected_pending)) = [] \<and>
   invoked (snd (pool_emit (Failed ''{}'') reconnected_pending)) = [] \<and>
   emitted (snd (pool_emit (Failed ''{}'') reconnected_pending)) = emitted reconnected_pending \<and>
   timers (snd (pool_emit (Failed ''{}'') reconnected_pending)) = [1000] \<and>
   \<not> isConnected (snd (pool_emit (Failed ''{}'') reconnected_pending)) \<and>
   ticks (snd (pool_emit (Closed ''{}'') reconnected_pending)) =
     [(1, MongoError ''server localhost:27017 sockets closed'')]"
  by (simp add: scenario_defs model_defs Let_def)

subsection \<open>The reconnect loop\<close>

text \<open>
  A failed attempt with at least two configured tries: \<^verbatim>\<open>reconnectServer\<close> has reset the
  counter to the configured maximum, the failure takes one off, and a next attempt is
  scheduled. Nothing is emitted.
\<close>

lemma failed_attempt_step:
  assumes "timers s = t # ts" and "2 \<le> reconnectTries s"
  shows "emitted (failed_attempt s) = emitted s \<and>
         timers (failed_attempt s) = ts @ [reconnectInterval s] \<and>
         connectCalls (failed_attempt s) = connectCalls s + 1 \<and>
         currentReconnectRetry (failed_attempt s) = reconnectTries s - 1 \<and>
         reconnectTries (failed_attempt s) = reconnectTries s \<and>
         reconnectInterval (failed_attempt s) = reconnectInterval s"
  using assms by (simp add: failed_attempt_def model_defs Let_def)

lemma lost_connection_facts:
  "emitted lost_connection = [EvClose (Cause ''{}'')]"
  "timers lost_connection = [1000]"
  "connectCalls lost_connection = 1"
  "reconnectTries lost_connection = 30"
  "reconnectInterval lost_connection = 1000"
  by (simp_all add: scenario_defs model_defs Let_def)

lemma retry_forever:
  "emitted ((failed_attempt ^^ n) lost_connection) = [EvClose (Cause ''{}'')] \<and>
   timers ((failed_attempt ^^ n) lost_connection) = [1000] \<and>
   connectCalls ((failed_attempt ^^ n) lost_connection) = n + 1 \<and>
   reconnectTries ((failed_attempt ^^ n) lost_connection) = 30 \<and>
   reconnectInterval ((failed_attempt ^^ n) lost_connection) = 1000"
proof (induction n)
  case 0
  then show ?case by (simp add: lost_connection_facts)
next
  case (Suc n)
  then show ?case
    using failed_attempt_step [of "(failed_attempt ^^ n) lost_connection" 1000 "[]"]
    by simp
qed

text \<open>
  C2 (the code departs from the claim). With the default options (30 tries) the
  connection is lost and every reconnect attempt fails. After any number \<open>n\<close> of failed
  attempts the only event emitted is the \<^verbatim>\<open>close\<close> of the lost connection, a further attempt
  is scheduled, and \<open>n\<close> reconnect attempts have been made: the terminal failure is never
  emitted and the attempts do not stop at 30.
\<close>

theorem C2_reconnect_never_gives_up:
  "\<forall>n. emitted ((failed_attempt ^^ n) lost_connection) = [EvClose (Cause ''{}'')] \<and>
       timers ((failed_attempt ^^ n) lost_connection) = [1000] \<and>
       connectCalls ((failed_attempt ^^ n) lost_connection) = n + 1"
  by (simp add: retry_forever)

subsection \<open>Negotiation\<close>

text \<open>
  C4. The listener of the ismaster request is the only one registered under the
  identifier a response answers, and the first document of the response has no numeric
  \<^verbatim>\<open>minWireVersion\<close>. Then handling the response emits the error event "non supported
  server version" and nothing else: no readiness announcement, no authentication started,
  no connect hook called, no countdown created whose completion could announce readiness.
  The handler returns normally when the server has an observer of \<^verbatim>\<open>error\<close>; with none, the
  emission throws the error it was given.
\<close>

theorem C4_unsupported_server_version:
  assumes "map snd (filter (\<lambda>e. fst e = responseTo r) (callbacks s)) = [Listener i IsMaster conn]"
    and "documents r = d # ds"
    and "not_number (map_of d ''minWireVersion'')"
  shows "fst (messageHandler r s) =
           (if ErrorEvent \<in> set (observed s) then None
            else Some (MongoError ''non supported server version'')) \<and>
         emitted (snd (messageHandler r s)) =
           emitted s @ [EvError (MongoError ''non supported server version'')] \<and>
         counters (snd (messageHandler r s)) = counters s \<and>
         reauthenticateCalls (snd (messageHandler r s)) = reauthenticateCalls s \<and>
         filter (\<lambda>c. fst (snd c) = OnConnect) (hookCalls (snd (messageHandler r s))) =
           filter (\<lambda>c. fst (snd c) = OnConnect) (hookCalls s)"
  using assms
  by (simp add: messageHandler_def callbacks_emit_def andThen_def listener_body_def
      call_callback_def ismaster_callback_def notifyStrategies_def emit_def unhandled_def
      Let_def hooked_def split: option.splits)

theorem C4_witness:
  "emitted (snd (messageHandler old_server_reply connected_server)) =
     [EvError (MongoError ''non supported server version'')] \<and>
   counters (snd (messageHandler old_server_reply connected_server)) = []"
proof -
  have a: "map snd (filter (\<lambda>e. fst e = responseTo old_server_reply)
             (callbacks connected_server)) = [Listener 0 IsMaster PoolConnection]"
    by (simp add: scenario_defs model_defs Let_def)
  have b: "documents old_server_reply = [(''ismaster'', JBool True), (''ok'', JNum 1)] # []"
    by (simp add: old_server_reply_def)
  have c: "not_number (map_of [(''ismaster'', JBool True), (''ok'', JNum 1)] ''minWireVersion'')"
    by (simp add: not_number_def)
  have e: "emitted connected_server = []" "counters connected_server = []"
    by (simp_all add: scenario_defs model_defs Let_def)
  from C4_unsupported_server_version [OF a b c] e show ?thesis by simp
qed

text \<open>
  The countdown of the connect hooks. With \<open>m\<close> the strategies registered when the
  authentications have settled, after \<open>n\<close> of the continuations given to the hooks have
  been called readiness has been announced exactly when \<open>n\<close> is the number of
  strategies: not before every strategy has called back, and never when some
  strategy was given no continuation because it defines no connect hook.
\<close>

lemma connect_hooks_countdown:
  assumes "readPreferenceStrategies s = Some m" and "m \<noteq> []" and "n \<le> length m"
  shows "counters (((\<lambda>t. snd (countdown (length (counters s)) t)) ^^ n)
                     (snd (authentications_done s))) =
           counters s @ [(int (length m) - int n, AfterConnectHooks)] \<and>
         emitted (((\<lambda>t. snd (countdown (length (counters s)) t)) ^^ n)
                    (snd (authentications_done s))) =
           emitted s @ (if n = length m then [EvConnect] else [])"
  using assms(3)
proof (induction n)
  case 0
  with assms(1,2) show ?case
    by (simp add: authentications_done_def notifyStrategies_cb_def)
next
  case (Suc n)
  then have n: "n < length m" by simp
  let ?t = "((\<lambda>t. snd (countdown (length (counters s)) t)) ^^ n) (snd (authentications_done s))"
  from Suc n have c: "counters ?t = counters s @ [(int (length m) - int n, AfterConnectHooks)]"
    and e: "emitted ?t = emitted s" by simp_all
  from c e n show ?case
    by (simp add: countdown_def Let_def fire_def emit_def nth_append)
qed

lemma no_strategies_ready_at_once:
  "readPreferenceStrategies s = None \<or> readPreferenceStrategies s = Some [] \<Longrightarrow>
   authentications_done s = emit EvConnect s"
  by (auto simp: authentications_done_def notifyStrategies_cb_def)

text \<open>
  C7 (the code departs from the claim). Strategy \<open>a\<close> defines the connect hook and
  strategy \<open>b\<close> does not. When the authentications have settled the counter starts at 2,
  the number of strategies, and the only continuation handed out is the one given to the
  hook of \<open>a\<close>. When that hook has completed the counter stands at 1 and readiness has
  not been announced; no continuation is left that could bring the counter to zero.
\<close>

theorem C7_hookless_strategy_blocks_readiness:
  "emitted negotiating = [] \<and>
   counters negotiating = [(2, AfterConnectHooks)] \<and>
   filter (\<lambda>c. snd (snd c) \<noteq> None) (hookCalls negotiating) = [(''a'', OnConnect, Some 0)] \<and>
   emitted (snd (countdown 0 negotiating)) = [] \<and>
   counters (snd (countdown 0 negotiating)) = [(1, AfterConnectHooks)]"
  by (simp add: scenario_defs model_defs Let_def)

subsection \<open>The callback registry: every continuation is resolved exactly once\<close>



lemma written_ids_simps [simp]:
  "written_ids (s\<lparr>callbacks := a\<rparr>) = written_ids s"
  "written_ids (s\<lparr>ticks := b\<rparr>) = written_ids s"
  "written_ids (s\<lparr>pool := c\<rparr>) = written_ids s"
  "written_ids (s\<lparr>written := written s @ [(conn, q)]\<rparr>) = written_ids s @ [requestId q]"
  by (simp_all add: written_ids_def)

lemma view_emit [simp]: "view (snd (emit e s)) = view s"
  by (cases e) (simp_all add: view_def written_ids_def emit_def Let_def)


lemma view_notifyStrategies_cb [simp]: "view (snd (notifyStrategies_cb op s)) = view s"
  by (simp add: notifyStrategies_cb_def split: option.splits) (simp add: view_def written_ids_def)

lemma view_authentications_done [simp]: "view (snd (authentications_done s)) = view s"
  by (simp add: authentications_done_def)

lemma view_applyAuthentications [simp]: "view (snd (applyAuthentications s)) = view s"
  by (simp add: applyAuthentications_def Let_def) (simp add: view_def written_ids_def)

lemma view_fire [simp]: "view (snd (fire k s)) = view s"
  by (cases k) (simp_all add: fire_def)


lemma view_ismaster_callback [simp]: "view (snd (ismaster_callback r s)) = view s"
proof -
  have a: "\<And>t. view (snd (applyAuthentications t)) = view t" by simp
  show ?thesis
    by (simp add: ismaster_callback_def Let_def a split: sum.splits command_result.splits option.splits)
       (simp add: view_def written_ids_def)
qed






































end
